theory Spec2Isabelle
  imports Main
begin

section \<open>Strings and regular expressions of the host language\<close>

text \<open>
  A JavaScript string is a sequence of UTF-16 code units; a code unit is modelled as a
  natural number, and \<open>js\<close> embeds a literal of the theory. \<open>length\<close>, \<open>take\<close> and
  \<open>drop\<close> then count what \<open>.length\<close>, \<open>substring\<close> and the regular expressions of the
  source count.
\<close>

type_synonym jstring = "nat list"

definition js :: "string \<Rightarrow> jstring" where
  "js s = map of_char s"

text \<open>The character classes \<open>\d\<close>, \<open>\w\<close> and \<open>\s\<close> (without the \<open>u\<close> flag).\<close>

definition isDigit :: "nat \<Rightarrow> bool" where
  "isDigit c = (48 \<le> c \<and> c \<le> 57)"

definition isWordChar :: "nat \<Rightarrow> bool" where
  "isWordChar c = ((97 \<le> c \<and> c \<le> 122) \<or> (65 \<le> c \<and> c \<le> 90) \<or> isDigit c \<or> c = 95)"

definition isSpace :: "nat \<Rightarrow> bool" where
  "isSpace c =
     (c \<in> set [9, 10, 11, 12, 13, 32, 160, 5760, 8232, 8233, 8239, 8287, 12288, 65279]
      \<or> (8192 \<le> c \<and> c \<le> 8202))"

text \<open>
  The regular expressions of the source use literals, character classes, sequence,
  alternation, \<open>?\<close> and a greedy \<open>+\<close> on a character class.
\<close>

datatype rx =
    Lit jstring
  | Cls "nat \<Rightarrow> bool"
  | Seq rx rx
  | Alt rx rx
  | Opt rx
  | Plus "nat \<Rightarrow> bool"

text \<open>
  \<open>Canonicalize\<close> of a pattern character under the \<open>i\<close> flag. Every literal of the
  source's patterns is ASCII, and no code unit from 128 on is canonicalised to an ASCII
  one, so comparing the ASCII upper cases decides whether a code unit matches a literal.
\<close>

definition canonicalize :: "nat \<Rightarrow> nat" where
  "canonicalize c = (if 97 \<le> c \<and> c \<le> 122 then c - 32 else c)"

fun lit_prefix :: "bool \<Rightarrow> jstring \<Rightarrow> jstring \<Rightarrow> bool" where
  "lit_prefix ci [] s = True"
| "lit_prefix ci (l # ls) [] = False"
| "lit_prefix ci (l # ls) (c # cs) =
     ((if ci then canonicalize l = canonicalize c else l = c) \<and> lit_prefix ci ls cs)"

text \<open>
  The backtracking matcher: \<open>rx_match ci r s\<close> lists every way in which \<open>r\<close> matches a
  prefix of \<open>s\<close>, as the pair of the matched text and the rest, in the order in which a
  backtracking engine tries them (the first alternative first, the optional part
  present first, the longest repetition first). \<open>ci\<close> is the \<open>i\<close> flag; a class is
  given as the set it matches under the flags of its pattern.
\<close>

fun rx_match :: "bool \<Rightarrow> rx \<Rightarrow> jstring \<Rightarrow> (jstring \<times> jstring) list" where
  "rx_match ci (Lit l) s =
     (if lit_prefix ci l s then [(take (length l) s, drop (length l) s)] else [])"
| "rx_match ci (Cls p) s = (case s of [] \<Rightarrow> [] | c # t \<Rightarrow> if p c then [([c], t)] else [])"
| "rx_match ci (Seq a b) s =
     concat (map (\<lambda>(m1, t1). map (\<lambda>(m2, t2). (m1 @ m2, t2)) (rx_match ci b t1))
                 (rx_match ci a s))"
| "rx_match ci (Alt a b) s = rx_match ci a s @ rx_match ci b s"
| "rx_match ci (Opt a) s = rx_match ci a s @ [([], s)]"
| "rx_match ci (Plus p) s =
     map (\<lambda>k. (take k s, drop k s)) (rev [1..<Suc (length (takeWhile p s))])"

fun seqs :: "rx list \<Rightarrow> rx" where
  "seqs [] = Lit []"
| "seqs [r] = r"
| "seqs (r # rs) = Seq r (seqs rs)"

text \<open>The match of a pattern at the start of \<open>s\<close>: the text of the first success.\<close>

definition rx_exec :: "bool \<Rightarrow> rx \<Rightarrow> jstring \<Rightarrow> jstring option" where
  "rx_exec ci r s = (case rx_match ci r s of [] \<Rightarrow> None | (m, t) # _ \<Rightarrow> Some m)"

text \<open>\<open>pattern.test(s)\<close> for a pattern that starts with \<open>^\<close>.\<close>

definition rx_test_anchored :: "rx \<Rightarrow> jstring \<Rightarrow> bool" where
  "rx_test_anchored r s = (rx_exec False r s \<noteq> None)"

text \<open>
  \<open>s.match(pattern)\<close> without the \<open>g\<close> flag: the leftmost match, with its offset.
\<close>

fun rx_search :: "bool \<Rightarrow> rx \<Rightarrow> nat \<Rightarrow> jstring \<Rightarrow> (nat \<times> jstring) option" where
  "rx_search ci r off [] = (case rx_exec ci r [] of None \<Rightarrow> None | Some m \<Rightarrow> Some (off, m))"
| "rx_search ci r off (c # t) =
     (case rx_exec ci r (c # t) of
        None \<Rightarrow> rx_search ci r (off + 1) t
      | Some m \<Rightarrow> Some (off, m))"

text \<open>
  \<open>s.match(pattern)\<close> with the \<open>g\<close> flag: the successive matches from left to right,
  each with the offset at which it starts. After a match the search goes on behind it
  (one code unit further after an empty match).
\<close>

function match_all_from :: "bool \<Rightarrow> rx \<Rightarrow> nat \<Rightarrow> jstring \<Rightarrow> (nat \<times> jstring) list" where
  "match_all_from ci r off [] =
     (case rx_exec ci r [] of None \<Rightarrow> [] | Some m \<Rightarrow> [(off, m)])"
| "match_all_from ci r off (c # t) =
     (case rx_exec ci r (c # t) of
        None \<Rightarrow> match_all_from ci r (off + 1) t
      | Some m \<Rightarrow>
          (off, m) # match_all_from ci r (off + max 1 (length m))
                       (drop (max 1 (length m)) (c # t)))"
  by pat_completeness auto
termination
  by (relation "measure (\<lambda>(ci, r, off, s). length s)") auto

text \<open>\<open>s.includes(part)\<close>.\<close>

fun str_includes :: "jstring \<Rightarrow> jstring \<Rightarrow> bool" where
  "str_includes [] part = (part = [])"
| "str_includes (c # cs) part = (lit_prefix False part (c # cs) \<or> str_includes cs part)"

text \<open>\<open>s.trim()\<close>: white space and line terminators removed at both ends.\<close>

definition trim :: "jstring \<Rightarrow> jstring" where
  "trim s = rev (dropWhile isSpace (rev (dropWhile isSpace s)))"

text \<open>
  \<open>[...new Set(xs)]\<close>: the elements are added in order, and an element that the set
  holds already is not added again.
\<close>

primrec set_add_all :: "'a list \<Rightarrow> 'a list \<Rightarrow> 'a list" where
  "set_add_all acc [] = acc"
| "set_add_all acc (x # xs) = set_add_all (if x \<in> set acc then acc else acc @ [x]) xs"

section \<open>URL discovery: \<open>extractTikTokUrls\<close> and \<open>isTikTokUrl\<close>\<close>

definition tikTokPatterns :: "rx list" where
  "tikTokPatterns =
     [ seqs [Lit (js ''http''), Opt (Lit (js ''s'')), Lit (js ''://''), Opt (Lit (js ''www.'')),
             Alt (Lit (js ''tiktok.com'')) (Lit (js ''vm.tiktok.com''))],
       seqs [Lit (js ''http''), Opt (Lit (js ''s'')), Lit (js ''://tiktok.com/t/'')],
       seqs [Lit (js ''http''), Opt (Lit (js ''s'')), Lit (js ''://''), Opt (Lit (js ''www.'')),
             Lit (js ''tiktok.com/@''), Plus (\<lambda>c. isWordChar c \<or> c = 46 \<or> c = 45),
             Lit (js ''/video/''), Plus isDigit] ]"

definition isTikTokUrl :: "jstring \<Rightarrow> bool" where
  "isTikTokUrl u = list_ex (\<lambda>pattern. rx_test_anchored pattern (trim u)) tikTokPatterns"

text \<open>The class \<open>[^\s\]\)\"\'<>]\<close> of \<open>urlPattern\<close>.\<close>

definition urlChar :: "nat \<Rightarrow> bool" where
  "urlChar c = (\<not> isSpace c \<and> c \<notin> set [93, 41, 34, 39, 60, 62])"

definition urlPattern :: rx where
  "urlPattern =
     seqs [Lit (js ''http''), Opt (Lit (js ''s'')), Lit (js ''://''), Opt (Lit (js ''www.'')),
           Alt (Lit (js ''tiktok.com'')) (Lit (js ''vm.tiktok.com'')),
           Lit (js ''/''), Plus urlChar]"

text \<open>The matches of \<open>urlPattern\<close> (flags \<open>gi\<close>) in the text, with their offsets.\<close>

definition urlMatches :: "jstring \<Rightarrow> (nat \<times> jstring) list" where
  "urlMatches text = match_all_from True urlPattern 0 text"

definition extractTikTokUrls :: "jstring \<Rightarrow> jstring list" where
  "extractTikTokUrls text =
     (let matches = map snd (urlMatches text);
          uniqueUrls = set_add_all [] matches
      in filter isTikTokUrl uniqueUrls)"

text \<open>
  The offset of the first match of \<open>urlPattern\<close> in the text that reads \<open>u\<close> (the length
  of the text when there is none).
\<close>

definition offset_in :: "(nat \<times> jstring) list \<Rightarrow> nat \<Rightarrow> jstring \<Rightarrow> nat" where
  "offset_in ps n u = (case find (\<lambda>p. snd p = u) ps of None \<Rightarrow> n | Some p \<Rightarrow> fst p)"

definition first_offset :: "jstring \<Rightarrow> jstring \<Rightarrow> nat" where
  "first_offset text u = offset_in (urlMatches text) (length text) u"

section \<open>Numbers and dates of the host language\<close>

text \<open>\<open>`${n}`\<close> for a natural number: its decimal digits.\<close>

function showNat :: "nat \<Rightarrow> jstring" where
  "showNat n = (if n < 10 then [48 + n] else showNat (n div 10) @ [48 + n mod 10])"
  by pat_completeness auto
termination
  by (relation "measure id") auto

declare showNat.simps [simp del]

text \<open>
  \<open>s.toLowerCase()\<close> on the code units below 256 (the basic Latin and the Latin-1
  capitals); the other code units are left as they are, which is all that the searches
  for ASCII words in \<open>detectPrivateVideo\<close> read.
\<close>

definition lowerUnit :: "nat \<Rightarrow> nat" where
  "lowerUnit c =
     (if (65 \<le> c \<and> c \<le> 90) \<or> (192 \<le> c \<and> c \<le> 222 \<and> c \<noteq> 215) then c + 32 else c)"

definition toLowerCase :: "jstring \<Rightarrow> jstring" where
  "toLowerCase s = map lowerUnit s"

text \<open>
  \<open>BigInt(s)\<close> for a string: white space is trimmed, the empty string is \<open>0\<close>, a
  literal is a run of decimal digits with an optional sign, or a run of digits behind
  \<open>0x\<close>, \<open>0o\<close> or \<open>0b\<close>; anything else is a \<open>SyntaxError\<close> (\<open>None\<close>).
\<close>

definition digitValue :: "nat \<Rightarrow> nat \<Rightarrow> nat option" where
  "digitValue radix c =
     (let v = (if 48 \<le> c \<and> c \<le> 57 then c - 48
               else if 97 \<le> c \<and> c \<le> 102 then c - 87
               else if 65 \<le> c \<and> c \<le> 70 then c - 55
               else radix)
      in if v < radix then Some v else None)"

fun digitsValue :: "nat \<Rightarrow> nat \<Rightarrow> jstring \<Rightarrow> nat option" where
  "digitsValue radix acc [] = Some acc"
| "digitsValue radix acc (c # cs) =
     (case digitValue radix c of
        None \<Rightarrow> None
      | Some v \<Rightarrow> digitsValue radix (acc * radix + v) cs)"

definition unsignedLiteral :: "nat \<Rightarrow> jstring \<Rightarrow> int option" where
  "unsignedLiteral radix ds =
     (if ds = [] then None else map_option int (digitsValue radix 0 ds))"

fun BigInt :: "jstring \<Rightarrow> int option" where
  "BigInt s =
     (case trim s of
        [] \<Rightarrow> Some 0
      | c # cs \<Rightarrow>
          if c = 43 then unsignedLiteral 10 cs
          else if c = 45 then map_option uminus (unsignedLiteral 10 cs)
          else if c = 48 \<and> cs \<noteq> [] \<and> hd cs \<in> set [120, 88] then unsignedLiteral 16 (tl cs)
          else if c = 48 \<and> cs \<noteq> [] \<and> hd cs \<in> set [111, 79] then unsignedLiteral 8 (tl cs)
          else if c = 48 \<and> cs \<noteq> [] \<and> hd cs \<in> set [98, 66] then unsignedLiteral 2 (tl cs)
          else unsignedLiteral 10 (c # cs))"

text \<open>
  Time values are milliseconds since the epoch; a \<open>Date\<close> is valid when its time value
  lies within \<open>8.64e15\<close> of it. The calendar is the one of the language definition:
  \<open>Day\<close>, \<open>DaysInYear\<close>, \<open>DayFromYear\<close>, \<open>YearFromTime\<close> (the largest year
  that starts on or before the day), \<open>MonthFromTime\<close> and \<open>DateFromTime\<close>.
\<close>

definition msPerDay :: int where
  "msPerDay = 86400000"

definition validTime :: "int \<Rightarrow> bool" where
  "validTime t = (- 8640000000000000 \<le> t \<and> t \<le> 8640000000000000)"

definition Day :: "int \<Rightarrow> int" where
  "Day t = t div msPerDay"

definition DaysInYear :: "int \<Rightarrow> int" where
  "DaysInYear y =
     (if y mod 4 \<noteq> 0 then 365 else if y mod 100 \<noteq> 0 then 366
      else if y mod 400 \<noteq> 0 then 365 else 366)"

definition DayFromYear :: "int \<Rightarrow> int" where
  "DayFromYear y =
     365 * (y - 1970) + (y - 1969) div 4 - (y - 1901) div 100 + (y - 1601) div 400"

text \<open>
  The year of a day is found from an estimate: down to a year that starts on or before
  the day, then up to the last such year.
\<close>

lemma DayFromYear_less: "DayFromYear y < DayFromYear (y + 1)"
proof -
  define a b c where "a = (y - 1969) div 4" and "b = (y - 1901) div 100"
    and "c = (y - 1601) div 400"
  define a' b' c' where "a' = (y + 1 - 1969) div 4" and "b' = (y + 1 - 1901) div 100"
    and "c' = (y + 1 - 1601) div 400"
  have 1: "a \<le> a'"
    unfolding a_def a'_def by (rule zdiv_mono1) simp_all
  have 2: "c \<le> c'"
    unfolding c_def c'_def by (rule zdiv_mono1) simp_all
  have "b' \<le> (y - 1901 + 100) div 100"
    unfolding b'_def by (rule zdiv_mono1) simp_all
  also have "\<dots> = b + 1"
    unfolding b_def by (rule div_add_self2) simp
  finally have 3: "b' \<le> b + 1" .
  have D: "DayFromYear y = 365 * (y - 1970) + a - b + c"
    by (simp only: DayFromYear_def a_def b_def c_def)
  have D': "DayFromYear (y + 1) = 365 * (y + 1 - 1970) + a' - b' + c'"
    by (simp only: DayFromYear_def a'_def b'_def c'_def)
  show ?thesis
    unfolding D D' using 1 2 3 by simp
qed

function year_down :: "int \<Rightarrow> int \<Rightarrow> int" where
  "year_down d y = (if d < DayFromYear y then year_down d (y - 1) else y)"
  by pat_completeness auto
termination
proof (relation "measure (\<lambda>(d, y). nat (DayFromYear y - d))")
  show "wf (measure (\<lambda>(d, y). nat (DayFromYear y - d)))"
    by simp
next
  fix d y :: int
  assume less: "d < DayFromYear y"
  have "DayFromYear (y - 1) < DayFromYear y"
    using DayFromYear_less [of "y - 1"] by simp
  with less show "((d, y - 1), (d, y)) \<in> measure (\<lambda>(d, y). nat (DayFromYear y - d))"
    by simp
qed

function year_up :: "int \<Rightarrow> int \<Rightarrow> int" where
  "year_up d y = (if DayFromYear (y + 1) \<le> d then year_up d (y + 1) else y)"
  by pat_completeness auto
termination
proof (relation "measure (\<lambda>(d, y). nat (d + 1 - DayFromYear (y + 1)))")
  show "wf (measure (\<lambda>(d, y). nat (d + 1 - DayFromYear (y + 1))))"
    by simp
next
  fix d y :: int
  assume le: "DayFromYear (y + 1) \<le> d"
  have "DayFromYear (y + 1) < DayFromYear (y + 1 + 1)"
    by (rule DayFromYear_less)
  with le show "((d, y + 1), (d, y)) \<in> measure (\<lambda>(d, y). nat (d + 1 - DayFromYear (y + 1)))"
    by simp
qed

declare year_down.simps [simp del]
declare year_up.simps [simp del]

definition YearFromDay :: "int \<Rightarrow> int" where
  "YearFromDay d = year_up d (year_down d (1970 + d div 365))"

definition YearFromTime :: "int \<Rightarrow> int" where
  "YearFromTime t = YearFromDay (Day t)"

definition InLeapYear :: "int \<Rightarrow> int" where
  "InLeapYear t = (if DaysInYear (YearFromTime t) = 366 then 1 else 0)"

definition DayWithinYear :: "int \<Rightarrow> int" where
  "DayWithinYear t = Day t - DayFromYear (YearFromTime t)"

definition MonthFromTime :: "int \<Rightarrow> int" where
  "MonthFromTime t =
     (let d = DayWithinYear t; l = InLeapYear t
      in if d < 31 then 0 else if d < 59 + l then 1 else if d < 90 + l then 2
         else if d < 120 + l then 3 else if d < 151 + l then 4 else if d < 181 + l then 5
         else if d < 212 + l then 6 else if d < 243 + l then 7 else if d < 273 + l then 8
         else if d < 304 + l then 9 else if d < 334 + l then 10 else 11)"

definition DateFromTime :: "int \<Rightarrow> int" where
  "DateFromTime t =
     (let d = DayWithinYear t; l = InLeapYear t; m = MonthFromTime t
      in if m = 0 then d + 1 else if m = 1 then d - 30 else if m = 2 then d - 58 - l
         else if m = 3 then d - 89 - l else if m = 4 then d - 119 - l
         else if m = 5 then d - 150 - l else if m = 6 then d - 180 - l
         else if m = 7 then d - 211 - l else if m = 8 then d - 242 - l
         else if m = 9 then d - 272 - l else if m = 10 then d - 303 - l
         else d - 333 - l)"

text \<open>Decimal fields of fixed width.\<close>

definition pad2 :: "nat \<Rightarrow> jstring" where
  "pad2 n = [48 + n div 10 mod 10, 48 + n mod 10]"

definition pad3 :: "nat \<Rightarrow> jstring" where
  "pad3 n = (48 + n div 100 mod 10) # pad2 n"

definition pad4 :: "nat \<Rightarrow> jstring" where
  "pad4 n = (48 + n div 1000 mod 10) # pad3 n"

definition pad6 :: "nat \<Rightarrow> jstring" where
  "pad6 n = (48 + n div 100000 mod 10) # (48 + n div 10000 mod 10) # pad4 n"

text \<open>
  \<open>date.toISOString()\<close> of a valid date: the year has four digits from 0 to 9999 and
  a sign and six digits otherwise.
\<close>

definition isoYear :: "int \<Rightarrow> jstring" where
  "isoYear y =
     (if 0 \<le> y \<and> y \<le> 9999 then pad4 (nat y)
      else (if y < 0 then 45 else 43) # pad6 (nat \<bar>y\<bar>))"

definition isoDatePart :: "int \<Rightarrow> jstring" where
  "isoDatePart t =
     isoYear (YearFromTime t) @ [45] @ pad2 (nat (MonthFromTime t + 1)) @ [45]
       @ pad2 (nat (DateFromTime t))"

definition isoTimePart :: "int \<Rightarrow> jstring" where
  "isoTimePart t =
     (let ms = nat (t mod msPerDay)
      in pad2 (ms div 3600000) @ [58] @ pad2 (ms div 60000 mod 60) @ [58]
           @ pad2 (ms div 1000 mod 60) @ [46] @ pad3 (ms mod 1000))"

definition toISOString :: "int \<Rightarrow> jstring" where
  "toISOString t = isoDatePart t @ [84] @ isoTimePart t @ [90]"

text \<open>\<open>s.split('T')[0]\<close>: the text in front of the first \<open>T\<close>.\<close>

definition split_T_0 :: "jstring \<Rightarrow> jstring" where
  "split_T_0 s = takeWhile (\<lambda>c. c \<noteq> 84) s"

text \<open>
  \<open>d.toISOString().split('T')[0]\<close> for a date \<open>d\<close> that may be invalid (\<open>None\<close>):
  \<open>toISOString\<close> throws a \<open>RangeError\<close> on an invalid date.
\<close>

definition isoDay :: "int option \<Rightarrow> jstring option" where
  "isoDay d = (case d of None \<Rightarrow> None | Some t \<Rightarrow> Some (split_T_0 (toISOString t)))"

text \<open>
  Well-formed calendar dates: \<open>YYYY-MM-DD\<close> with a month from 01 to 12 and a day from
  01 to 31, and the expanded form of the same with a sign and six digits of year.
\<close>

definition twoDigits :: "jstring \<Rightarrow> nat option" where
  "twoDigits s =
     (case s of
        [a, b] \<Rightarrow> if isDigit a \<and> isDigit b then Some (10 * (a - 48) + (b - 48)) else None
      | _ \<Rightarrow> None)"

definition monthDay :: "jstring \<Rightarrow> bool" where
  "monthDay s =
     (length s = 6 \<and> s ! 0 = 45 \<and> s ! 3 = 45
      \<and> (case twoDigits (take 2 (drop 1 s)) of None \<Rightarrow> False | Some m \<Rightarrow> 1 \<le> m \<and> m \<le> 12)
      \<and> (case twoDigits (drop 4 s) of None \<Rightarrow> False | Some d \<Rightarrow> 1 \<le> d \<and> d \<le> 31))"

definition isoCalendarDate :: "jstring \<Rightarrow> bool" where
  "isoCalendarDate s = (list_all isDigit (take 4 s) \<and> 4 \<le> length s \<and> monthDay (drop 4 s))"

definition isoExpandedDate :: "jstring \<Rightarrow> bool" where
  "isoExpandedDate s =
     (7 \<le> length s \<and> hd s \<in> set [43, 45] \<and> list_all isDigit (take 6 (tl s))
      \<and> monthDay (drop 7 s))"

section \<open>Environment, settings and effects\<close>

text \<open>
  A value thrown in the source is a value of the model: an awaited call either returns
  or throws an error, of which the source reads \<open>message\<close> (when it is a string) and
  \<open>status\<close>.
\<close>

record js_error =
  message :: "jstring option"
  status :: "nat option"

datatype 'a attempt = Threw js_error | Returned 'a

definition Error :: "jstring \<Rightarrow> js_error" where
  "Error msg = \<lparr> message = Some msg, status = None \<rparr>"

text \<open>
  The response to a HEAD request as the source reads it: the final URL and the
  \<open>last-modified\<close> header. The response of the metadata endpoint: \<open>ok\<close>, \<open>status\<close> and
  the outcome of \<open>json()\<close>, whose fields are strings when present.
\<close>

record head_response =
  resp_url :: jstring
  last_modified :: "jstring option"

record oembed_data =
  author_name :: "jstring option"
  title :: "jstring option"
  thumbnail_url :: "jstring option"
  html :: "jstring option"

record oembed_response =
  resp_ok :: bool
  resp_status :: nat
  resp_json :: "oembed_data attempt"

text \<open>
  What the program cannot decide by itself: the platform, the parts of the language
  runtime that depend on tables outside the repository (the code units that the \<open>i\<close>
  flag adds to the class of the hashtag pattern through case folding, and \<open>Date.parse\<close>
  of a header), the outcome of each request in the order in which one run of the
  pipeline issues them, and the clock at the two places where a record reads it.
\<close>

record env =
  isMobile :: bool
  fold_extra :: "nat \<Rightarrow> bool"
  Date_parse :: "jstring \<Rightarrow> int option"
  head_expand :: "head_response attempt"
  head_expand_mobile :: "head_response attempt"
  oembed :: "oembed_response attempt"
  head_date :: "head_response attempt"
  now_posted :: int
  now_created :: int

datatype private_policy = CreateEmpty | Skip | ShowError

record settings =
  outputFolder :: jstring
  handlePrivateVideos :: private_policy
  urlTimeout :: nat
  enableBulkProcessing :: bool
  bypassModalForSingle :: bool
  showBulkProcessingProgress :: bool

text \<open>
  The effects of a run, in order: requests (with the delay of the abort timer wired to
  them, in milliseconds), notices, the duplicate prompt and the operations on the vault.
\<close>

datatype effect =
    Fetch jstring jstring "nat option"
  | RequestUrl jstring jstring
  | Notice jstring
  | DuplicatePrompt jstring jstring
  | CreateFolder jstring
  | Delete jstring
  | Create jstring jstring

definition dq :: jstring where
  "dq = [34]"

text \<open>
  \<open>encodeURIComponent\<close>: the unreserved characters are kept, every other code point is
  written as the escaped bytes of its UTF-8 encoding, and a surrogate without its
  partner is a \<open>URIError\<close>.
\<close>

definition uriUnreserved :: "nat \<Rightarrow> bool" where
  "uriUnreserved c =
     ((97 \<le> c \<and> c \<le> 122) \<or> (65 \<le> c \<and> c \<le> 90) \<or> isDigit c
      \<or> c \<in> set [45, 95, 46, 33, 126, 42, 39, 40, 41])"

definition hexDigit :: "nat \<Rightarrow> nat" where
  "hexDigit n = (if n < 10 then 48 + n else 55 + n)"

definition percent :: "nat \<Rightarrow> jstring" where
  "percent b = [37, hexDigit (b div 16), hexDigit (b mod 16)]"

definition utf8 :: "nat \<Rightarrow> nat list" where
  "utf8 cp =
     (if cp < 128 then [cp]
      else if cp < 2048 then [192 + cp div 64, 128 + cp mod 64]
      else if cp < 65536 then [224 + cp div 4096, 128 + cp div 64 mod 64, 128 + cp mod 64]
      else [240 + cp div 262144, 128 + cp div 4096 mod 64, 128 + cp div 64 mod 64,
            128 + cp mod 64])"

definition escaped :: "nat \<Rightarrow> jstring" where
  "escaped cp = concat (map percent (utf8 cp))"

definition prepend :: "jstring \<Rightarrow> jstring attempt \<Rightarrow> jstring attempt" where
  "prepend x r = (case r of Threw err \<Rightarrow> Threw err | Returned y \<Rightarrow> Returned (x @ y))"

fun encodeURIComponent :: "jstring \<Rightarrow> jstring attempt" where
  "encodeURIComponent [] = Returned []"
| "encodeURIComponent [c] =
     (if uriUnreserved c then Returned [c]
      else if 55296 \<le> c \<and> c \<le> 57343 then Threw (Error (js ''URI malformed''))
      else Returned (escaped c))"
| "encodeURIComponent (c # d # cs) =
     (if uriUnreserved c then prepend [c] (encodeURIComponent (d # cs))
      else if 56320 \<le> c \<and> c \<le> 57343 then Threw (Error (js ''URI malformed''))
      else if 55296 \<le> c \<and> c \<le> 56319 then
        (if 56320 \<le> d \<and> d \<le> 57343
         then prepend (escaped ((c - 55296) * 1024 + (d - 56320) + 65536))
                (encodeURIComponent cs)
         else Threw (Error (js ''URI malformed'')))
      else prepend (escaped c) (encodeURIComponent (d # cs)))"

section \<open>Redirect resolver: \<open>makeHeadRequest\<close> and \<open>expandUrl\<close>\<close>

text \<open>
  \<open>makeHeadRequest\<close>: on mobile \<open>requestUrl\<close> is used, the abort signal is not passed
  on, a failure is caught and the URL of the response is the one requested; on desktop
  \<open>fetch\<close> is used with the signal, and a failure is thrown to the caller.
\<close>

definition makeHeadRequest ::
  "env \<Rightarrow> jstring \<Rightarrow> nat option \<Rightarrow> head_response attempt
     \<Rightarrow> head_response attempt \<times> effect list" where
  "makeHeadRequest e u abort reply =
     (if isMobile e then
        (case reply of
           Returned r \<Rightarrow>
             Returned \<lparr> resp_url = u,
                        last_modified = (case last_modified r of
                                           None \<Rightarrow> None
                                         | Some v \<Rightarrow> if v = [] then None else Some v) \<rparr>
         | Threw err \<Rightarrow> Returned \<lparr> resp_url = u, last_modified = None \<rparr>,
         [RequestUrl (js ''HEAD'') u])
      else (reply, [Fetch (js ''HEAD'') u abort]))"

definition isShortLink :: "jstring \<Rightarrow> bool" where
  "isShortLink u =
     (str_includes u (js ''vm.tiktok.com'') \<or> str_includes u (js ''tiktok.com/t/''))"

definition expandUrl ::
  "env \<Rightarrow> settings \<Rightarrow> jstring \<Rightarrow> head_response attempt \<Rightarrow> jstring attempt \<times> effect list" where
  "expandUrl e s u reply =
     (if isShortLink u then
        (case makeHeadRequest e u (Some (urlTimeout s * 1000)) reply of
           (Returned response, fx) \<Rightarrow> (Returned (resp_url response), fx)
         | (Threw err, fx) \<Rightarrow> (Returned u, fx))
      else (Returned u, []))"

section \<open>Metadata resolver: \<open>fetchTikTokData\<close>\<close>

text \<open>A string or \<open>null\<close> in a condition: true for a non-empty string.\<close>

definition truthy :: "jstring option \<Rightarrow> bool" where
  "truthy x = (case x of None \<Rightarrow> False | Some v \<Rightarrow> v \<noteq> [])"

text \<open>The object that \<open>fetchTikTokData\<close> resolves with.\<close>

record tiktok_data =
  author :: jstring
  description :: jstring
  hashtags :: "jstring list"
  url :: jstring
  expandedUrl :: jstring
  embedHtml :: jstring
  thumbnailUrl :: "jstring option"
  videoId :: "jstring option"
  createdDate :: jstring
  postedDate :: jstring
  oembedFailed :: bool
  isSlideshow :: "bool option"
  isPrivate :: "bool option"

text \<open>
  \<open>extractHashtags\<close>: the pattern \<open>#[\w\u00c0-\u024f\u1e00-\u1eff]+\<close> with the flags
  \<open>gi\<close>; \<open>text.match(...) || []\<close> is the list of the matched texts.
\<close>

definition hashtagChar :: "env \<Rightarrow> nat \<Rightarrow> bool" where
  "hashtagChar e c =
     (isWordChar c \<or> (192 \<le> c \<and> c \<le> 591) \<or> (7680 \<le> c \<and> c \<le> 7935) \<or> fold_extra e c)"

definition hashtagRegex :: "env \<Rightarrow> rx" where
  "hashtagRegex e = Seq (Lit [35]) (Plus (hashtagChar e))"

definition extractHashtags :: "env \<Rightarrow> jstring \<Rightarrow> jstring list" where
  "extractHashtags e text = map snd (match_all_from True (hashtagRegex e) 0 text)"

text \<open>
  \<open>extractVideoId\<close> (\<open>/\/video\/(\d+)/\<close>) and \<open>extractAuthorFromUrl\<close>
  (\<open>/@([^\/]+)/\<close>): the first group is the match behind its fixed head.
\<close>

definition extractVideoId :: "jstring \<Rightarrow> jstring option" where
  "extractVideoId u =
     (case rx_search False (Seq (Lit (js ''/video/'')) (Plus isDigit)) 0 u of
        None \<Rightarrow> None
      | Some (off, m) \<Rightarrow> Some (drop 7 m))"

definition extractAuthorFromUrl :: "jstring \<Rightarrow> jstring" where
  "extractAuthorFromUrl u =
     (case rx_search False (Seq (Lit [64]) (Plus (\<lambda>c. c \<noteq> 47))) 0 u of
        None \<Rightarrow> js ''Unknown''
      | Some (off, m) \<Rightarrow> [64] @ drop 1 m)"

text \<open>\<open>html.match(/data-video-id="(\d+)"/)\<close>: the digits between the quotes.\<close>

definition videoIdFromHtml :: "jstring \<Rightarrow> jstring option" where
  "videoIdFromHtml h =
     (case rx_search False (seqs [Lit (js ''data-video-id='' @ dq), Plus isDigit, Lit dq]) 0 h of
        None \<Rightarrow> None
      | Some (off, m) \<Rightarrow> Some (butlast (drop 15 m)))"

definition linkTo :: "jstring \<Rightarrow> jstring" where
  "linkTo u =
     js ''<a href='' @ dq @ u @ dq @ js '' target='' @ dq @ js ''_blank'' @ dq @ js ''>'' @ u
       @ js ''</a>''"

definition createObsidianCompatibleEmbed :: "jstring option \<Rightarrow> jstring \<Rightarrow> jstring" where
  "createObsidianCompatibleEmbed vid u =
     (if truthy vid then
        js ''<iframe width='' @ dq @ js ''325'' @ dq @ js '' height='' @ dq @ js ''760'' @ dq
          @ js '' src='' @ dq @ js ''https://www.tiktok.com/embed/v2/'' @ the vid @ dq
          @ js ''></iframe>''
      else js ''<p>TikTok video: '' @ linkTo u @ js ''</p>'')"

text \<open>
  \<open>extractTikTokPostedDate\<close>. The identifier is decoded when it is a non-empty string of
  at least 19 code units: \<open>BigInt\<close>, a shift to the right by 32 bits, and the test
  \<open>timestamp > 1262304000 && timestamp < 1893456000\<close>. \<open>decodePostedDate\<close> is that
  first part: it throws when \<open>BigInt\<close> does, and returns no date when the identifier is
  not decoded or the timestamp is refused.
\<close>

definition decodePostedDate :: "jstring option \<Rightarrow> jstring option attempt" where
  "decodePostedDate vid =
     (case vid of
        None \<Rightarrow> Returned None
      | Some v \<Rightarrow>
          if truthy vid \<and> 19 \<le> length v then
            (case BigInt v of
               None \<Rightarrow> Threw (Error (js ''Cannot convert to a BigInt''))
             | Some videoIdBig \<Rightarrow>
                 (let timestamp = videoIdBig div 2 ^ 32
                  in if 1262304000 < timestamp \<and> timestamp < 1893456000
                     then Returned (isoDay (Some (timestamp * 1000)))
                     else Returned None))
          else Returned None)"

text \<open>
  The second part asks for the \<open>last-modified\<close> header with an abort timer of 5000
  milliseconds; a failure of the request and the \<open>RangeError\<close> of an invalid date are
  caught by the inner \<open>try\<close>. What is left is the current date. An error of the first
  part is caught by the outer \<open>try\<close>, which leaves the current date as well.
\<close>

text \<open>
  \<open>new Date(s)\<close> for a string: the time value that \<open>Date.parse\<close> finds, when it
  is one of a valid date.
\<close>

definition newDate :: "env \<Rightarrow> jstring \<Rightarrow> int option" where
  "newDate e s =
     (case Date_parse e s of
        None \<Rightarrow> None
      | Some t \<Rightarrow> if validTime t then Some t else None)"

definition lastModifiedDate :: "env \<Rightarrow> jstring \<Rightarrow> jstring option \<times> effect list" where
  "lastModifiedDate e u =
     (case makeHeadRequest e u (Some 5000) (head_date e) of
        (Threw err, fx) \<Rightarrow> (None, fx)
      | (Returned response, fx) \<Rightarrow>
          (case last_modified response of
             None \<Rightarrow> (None, fx)
           | Some lastModified \<Rightarrow>
               if lastModified \<noteq> [] then (isoDay (newDate e lastModified), fx)
               else (None, fx)))"

text \<open>\<open>new Date().toISOString().split('T')[0]\<close> when the clock reads \<open>now\<close>.\<close>

definition currentDate :: "int \<Rightarrow> jstring" where
  "currentDate now = split_T_0 (toISOString now)"

definition extractTikTokPostedDate ::
  "env \<Rightarrow> jstring \<Rightarrow> jstring option \<Rightarrow> jstring \<times> effect list" where
  "extractTikTokPostedDate e u vid =
     (case decodePostedDate vid of
        Threw err \<Rightarrow> (currentDate (now_posted e), [])
      | Returned (Some date) \<Rightarrow> (date, [])
      | Returned None \<Rightarrow>
          (case lastModifiedDate e u of
             (Some date, fx) \<Rightarrow> (date, fx)
           | (None, fx) \<Rightarrow> (currentDate (now_posted e), fx)))"

text \<open>\<open>s.replace('@', '')\<close>: the first \<open>@\<close> is removed.\<close>

definition removeAt :: "jstring \<Rightarrow> jstring" where
  "removeAt s = remove1 64 s"

definition detectPrivateVideo :: "js_error \<Rightarrow> bool" where
  "detectPrivateVideo err =
     ((case message err of
         None \<Rightarrow> False
       | Some msg \<Rightarrow>
           (let errorMessage = toLowerCase msg
            in str_includes errorMessage (js ''403'') \<or> str_includes errorMessage (js ''forbidden'')
               \<or> str_includes errorMessage (js ''private'')
               \<or> str_includes errorMessage (js ''not available'')
               \<or> str_includes errorMessage (js ''access denied'')
               \<or> str_includes errorMessage (js ''restricted'')))
      \<or> status err = Some 403)"

definition handlePrivateVideo ::
  "env \<Rightarrow> settings \<Rightarrow> jstring \<Rightarrow> jstring option \<Rightarrow> bool \<Rightarrow> tiktok_data option \<times> effect list" where
  "handlePrivateVideo e s u vid isBulkProcessing =
     (case extractTikTokPostedDate e u vid of
        (posted, fx) \<Rightarrow>
          (case handlePrivateVideos s of
             Skip \<Rightarrow> (None, fx)
           | ShowError \<Rightarrow>
               (Some \<lparr> author = extractAuthorFromUrl u,
                        description = js ''Private TikTok Video - Access Denied'',
                        hashtags = [], url = u, expandedUrl = u,
                        embedHtml =
                          js ''<p><strong>'' @ [9888, 65039] @ js '' Private Video</strong></p>''
                            @ js ''<p>This TikTok video is private and cannot be accessed.</p>''
                            @ js ''<p>Original URL: '' @ linkTo u @ js ''</p>'',
                        thumbnailUrl = None, videoId = vid,
                        createdDate = currentDate (now_created e), postedDate = posted,
                        oembedFailed = True, isSlideshow = None, isPrivate = Some True \<rparr>,
                fx @ (if isBulkProcessing then []
                      else [Notice (js ''Cannot access private TikTok video: '' @ u)]))
           | CreateEmpty \<Rightarrow>
               (Some \<lparr> author = extractAuthorFromUrl u,
                        description = js ''Private TikTok Video'',
                        hashtags = [], url = u, expandedUrl = u,
                        embedHtml = js ''<p>TikTok video (private): '' @ linkTo u @ js ''</p>'',
                        thumbnailUrl = None, videoId = vid,
                        createdDate = currentDate (now_created e), postedDate = posted,
                        oembedFailed = True, isSlideshow = None, isPrivate = Some True \<rparr>,
                fx)))"

definition handleSlideshowUrl ::
  "env \<Rightarrow> jstring \<Rightarrow> jstring option \<Rightarrow> tiktok_data option \<times> effect list" where
  "handleSlideshowUrl e u vid =
     (case extractTikTokPostedDate e u vid of
        (posted, fx) \<Rightarrow>
          (Some \<lparr> author = removeAt (extractAuthorFromUrl u),
                   description = js ''TikTok Photo Slideshow'',
                   hashtags = [], url = u, expandedUrl = u,
                   embedHtml = js ''![TikTok photo slideshow by '' @ extractAuthorFromUrl u
                                 @ js '']('' @ u @ js '')'',
                   thumbnailUrl = None, videoId = vid,
                   createdDate = currentDate (now_created e), postedDate = posted,
                   oembedFailed = False, isSlideshow = Some True, isPrivate = None \<rparr>,
           fx))"

text \<open>\<open>x || d\<close> for an optional string: the default when it is absent or empty.\<close>

definition orElse :: "jstring option \<Rightarrow> jstring \<Rightarrow> jstring" where
  "orElse x d = (case x of None \<Rightarrow> d | Some v \<Rightarrow> if v = [] then d else v)"

text \<open>
  The \<open>try\<close> block of the desktop path, up to the record of the primary method. It
  throws what \<open>encodeURIComponent\<close>, the request or \<open>json()\<close> throw, and the error of a
  response that is not \<open>ok\<close>; the effects issued until then are kept beside the error.
\<close>

definition oembedAttempt ::
  "env \<Rightarrow> settings \<Rightarrow> jstring \<Rightarrow> jstring option \<Rightarrow> tiktok_data attempt \<times> effect list" where
  "oembedAttempt e s u vid =
     (case encodeURIComponent u of
        Threw err \<Rightarrow> (Threw err, [])
      | Returned encoded \<Rightarrow>
          (let oembedUrl = js ''https://www.tiktok.com/oembed?url='' @ encoded;
               fx = [Fetch (js ''GET'') oembedUrl (Some (urlTimeout s * 1000))]
           in case oembed e of
                Threw err \<Rightarrow> (Threw err, fx)
              | Returned response \<Rightarrow>
                  if \<not> resp_ok response
                  then (Threw (Error (js ''oEmbed request failed: ''
                                       @ showNat (resp_status response))), fx)
                  else
                    (case resp_json response of
                       Threw err \<Rightarrow> (Threw err, fx)
                     | Returned oembedData \<Rightarrow>
                         (let finalVideoId =
                                (if \<not> truthy vid \<and> truthy (html oembedData)
                                 then videoIdFromHtml (orElse (html oembedData) [])
                                 else vid)
                          in case extractTikTokPostedDate e u finalVideoId of
                               (posted, fx') \<Rightarrow>
                                 (Returned
                                    \<lparr> author = orElse (author_name oembedData) (js ''Unknown''),
                                      description = orElse (title oembedData) (js ''TikTok Video''),
                                      hashtags = extractHashtags e (orElse (title oembedData) []),
                                      url = u, expandedUrl = u,
                                      embedHtml = createObsidianCompatibleEmbed finalVideoId u,
                                      thumbnailUrl = thumbnail_url oembedData,
                                      videoId = finalVideoId,
                                      createdDate = currentDate (now_created e),
                                      postedDate = posted,
                                      oembedFailed = False, isSlideshow = None,
                                      isPrivate = None \<rparr>,
                                  fx @ fx')))))"

text \<open>The \<open>catch\<close> block of the desktop path.\<close>

definition oembedFallback ::
  "env \<Rightarrow> settings \<Rightarrow> jstring \<Rightarrow> jstring option \<Rightarrow> bool \<Rightarrow> js_error
     \<Rightarrow> tiktok_data option \<times> effect list" where
  "oembedFallback e s u vid isBulkProcessing err =
     (if detectPrivateVideo err then handlePrivateVideo e s u vid isBulkProcessing
      else
        (let notice = (if isBulkProcessing then []
                       else [Notice (js ''oEmbed failed, using fallback embed method'')])
         in case extractTikTokPostedDate e u vid of
              (posted, fx) \<Rightarrow>
                (if str_includes u (js ''/photo/'') then
                   Some \<lparr> author = removeAt (extractAuthorFromUrl u),
                          description = js ''TikTok Photo Slideshow'',
                          hashtags = [], url = u, expandedUrl = u,
                          embedHtml = js ''![TikTok photo slideshow by '' @ extractAuthorFromUrl u
                                        @ js '']('' @ u @ js '')'',
                          thumbnailUrl = None, videoId = vid,
                          createdDate = currentDate (now_created e), postedDate = posted,
                          oembedFailed = True, isSlideshow = Some True, isPrivate = None \<rparr>
                 else
                   Some \<lparr> author = removeAt (extractAuthorFromUrl u),
                          description = js ''TikTok Post'',
                          hashtags = [], url = u, expandedUrl = u,
                          embedHtml = createObsidianCompatibleEmbed vid u,
                          thumbnailUrl = None, videoId = vid,
                          createdDate = currentDate (now_created e), postedDate = posted,
                          oembedFailed = True, isSlideshow = Some False, isPrivate = None \<rparr>,
                 notice @ fx)))"

text \<open>
  The mobile path and \<open>fetchTikTokData\<close> itself. An error that no \<open>try\<close> of these
  functions catches is thrown to the caller.
\<close>

definition fetchTikTokDataMobile ::
  "env \<Rightarrow> settings \<Rightarrow> jstring \<Rightarrow> bool \<Rightarrow> tiktok_data option attempt \<times> effect list" where
  "fetchTikTokDataMobile e s u isBulkProcessing =
     (case expandUrl e s u (head_expand_mobile e) of
        (Threw err, fx) \<Rightarrow> (Threw err, fx)
      | (Returned expanded, fx) \<Rightarrow>
          if str_includes expanded (js ''/photo/'') then
            (case handleSlideshowUrl e expanded (extractVideoId expanded) of
               (d, fx') \<Rightarrow> (Returned d, fx @ fx'))
          else if removeAt (extractAuthorFromUrl expanded) = js ''Unknown''
                  \<or> \<not> truthy (extractVideoId expanded) then
            (case handlePrivateVideo e s expanded (extractVideoId expanded) isBulkProcessing of
               (d, fx') \<Rightarrow> (Returned d, fx @ fx'))
          else
            (case extractTikTokPostedDate e expanded (extractVideoId expanded) of
               (posted, fx') \<Rightarrow>
                 (Returned
                    (Some \<lparr> author = removeAt (extractAuthorFromUrl expanded),
                             description = js ''TikTok from '' @ extractAuthorFromUrl expanded,
                             hashtags = [], url = u, expandedUrl = expanded,
                             embedHtml =
                               createObsidianCompatibleEmbed (extractVideoId expanded) expanded
                                 @ [10, 10] @ js ''![TikTok from ''
                                 @ extractAuthorFromUrl expanded @ js '']('' @ expanded @ js '')'',
                             thumbnailUrl = None, videoId = extractVideoId expanded,
                             createdDate = currentDate (now_created e), postedDate = posted,
                             oembedFailed = True, isSlideshow = None, isPrivate = None \<rparr>),
                  fx @ fx')))"

definition fetchTikTokData ::
  "env \<Rightarrow> settings \<Rightarrow> jstring \<Rightarrow> bool \<Rightarrow> tiktok_data option attempt \<times> effect list" where
  "fetchTikTokData e s u isBulkProcessing =
     (if isMobile e then fetchTikTokDataMobile e s u isBulkProcessing
      else if str_includes u (js ''/photo/'') then
        (case handleSlideshowUrl e u (extractVideoId u) of (d, fx) \<Rightarrow> (Returned d, fx))
      else
        (case oembedAttempt e s u (extractVideoId u) of
           (Returned d, fx) \<Rightarrow> (Returned (Some d), fx)
         | (Threw err, fx) \<Rightarrow>
             (case oembedFallback e s u (extractVideoId u) isBulkProcessing err of
                (d, fx') \<Rightarrow> (Returned d, fx @ fx'))))"

section \<open>Note writer: \<open>createTikTokNote\<close>\<close>

text \<open>
  The vault is the list of its entries, each a path with a file (and its content) or a
  folder; \<open>getAbstractFileByPath\<close> looks a path up. Every operation on the vault can
  fail: the environment says which of the operations of one call do, with the error
  thrown. \<open>create\<close> also fails on a path that is taken, and \<open>delete\<close> removes an entry
  together with what lies below it.
\<close>

datatype entry = File jstring | Folder

type_synonym vault = "(jstring \<times> entry) list"

definition getAbstractFileByPath :: "vault \<Rightarrow> jstring \<Rightarrow> entry option" where
  "getAbstractFileByPath v p = map_of v p"

datatype duplicate_action = ReplaceFile | DuplicateFile | SkipFile

text \<open>
  \<open>duplicate_choice\<close> is the button pressed in \<open>DuplicateFileModal\<close>; the promise of
  \<open>handleDuplicateFile\<close> is resolved by a button only, so a modal that is closed
  otherwise leaves it pending (\<open>None\<close>).
\<close>

record note_env =
  createFolder_error :: "js_error option"
  delete_error :: "js_error option"
  create_error :: "js_error option"
  duplicate_choice :: "duplicate_action option"

definition vault_createFolder :: "note_env \<Rightarrow> vault \<Rightarrow> jstring \<Rightarrow> unit attempt \<times> vault" where
  "vault_createFolder ne v p =
     (case createFolder_error ne of
        Some err \<Rightarrow> (Threw err, v)
      | None \<Rightarrow> (Returned (), v @ [(p, Folder)]))"

definition vault_create :: "note_env \<Rightarrow> vault \<Rightarrow> jstring \<Rightarrow> jstring \<Rightarrow> unit attempt \<times> vault" where
  "vault_create ne v p content =
     (case create_error ne of
        Some err \<Rightarrow> (Threw err, v)
      | None \<Rightarrow>
          if getAbstractFileByPath v p \<noteq> None
          then (Threw (Error (js ''File already exists.'')), v)
          else (Returned (), v @ [(p, File content)]))"

definition vault_delete :: "note_env \<Rightarrow> vault \<Rightarrow> jstring \<Rightarrow> unit attempt \<times> vault" where
  "vault_delete ne v p =
     (case delete_error ne of
        Some err \<Rightarrow> (Threw err, v)
      | None \<Rightarrow>
          (Returned (), filter (\<lambda>(q, x). q \<noteq> p \<and> \<not> lit_prefix False (p @ [47]) q) v))"

record note_result =
  n_success :: bool
  n_duplicate :: "bool option"
  n_fileName :: "jstring option"
  n_noteTitle :: "jstring option"

definition filePathFor :: "jstring \<Rightarrow> jstring \<Rightarrow> jstring" where
  "filePathFor folderPath name =
     (if folderPath \<noteq> [] then folderPath @ [47] @ name @ js ''.md'' else name @ js ''.md'')"

text \<open>
  The \<open>do ... while\<close> loop of the \<open>duplicate\<close> branch, entered with \<open>counter = 1\<close>:
  the path with the suffix \<open>-counter\<close> is built, the counter is increased, and the
  loop goes on while the path is taken. The value is the path on which it stops.
\<close>

partial_function (option) probeDuplicate ::
  "vault \<Rightarrow> jstring \<Rightarrow> jstring \<Rightarrow> nat \<Rightarrow> jstring option" where
  "probeDuplicate v folderPath name counter =
     (if getAbstractFileByPath v (filePathFor folderPath (name @ [45] @ showNat counter)) \<noteq> None
      then probeDuplicate v folderPath name (counter + 1)
      else Some (filePathFor folderPath (name @ [45] @ showNat counter)))"

definition failed_result :: note_result where
  "failed_result =
     \<lparr> n_success = False, n_duplicate = None, n_fileName = None, n_noteTitle = None \<rparr>"

definition created_result :: "jstring \<Rightarrow> jstring \<Rightarrow> note_result" where
  "created_result name noteTitle =
     \<lparr> n_success = True, n_duplicate = None, n_fileName = Some name,
       n_noteTitle = Some noteTitle \<rparr>"

definition unlessBulk :: "bool \<Rightarrow> effect \<Rightarrow> effect list" where
  "unlessBulk isBulkProcessing x = (if isBulkProcessing then [] else [x])"

text \<open>
  The \<open>try\<close> block at the end of \<open>createTikTokNote\<close> with its \<open>catch\<close>: when there was
  a file and the path is still the first one, the file is deleted and the note is
  created; otherwise the note is created. \<open>existing\<close> says whether \<open>existingFile\<close> is
  set, \<open>filePath\<close> is the path after the prompt, \<open>firstPath\<close> the one before it.
\<close>

definition writeNote ::
  "note_env \<Rightarrow> vault \<Rightarrow> bool \<Rightarrow> jstring \<Rightarrow> jstring \<Rightarrow> jstring \<Rightarrow> jstring \<Rightarrow> jstring \<Rightarrow> bool
     \<Rightarrow> note_result \<times> vault \<times> effect list" where
  "writeNote ne v existing filePath firstPath name noteTitle noteContent isBulkProcessing =
     (if existing \<and> filePath = firstPath then
        (case vault_delete ne v filePath of
           (Threw err, v1) \<Rightarrow>
             (failed_result, v1,
              [Delete filePath] @ unlessBulk isBulkProcessing (Notice (js ''Failed to create note'')))
         | (Returned u1, v1) \<Rightarrow>
             (case vault_create ne v1 filePath noteContent of
                (Threw err, v2) \<Rightarrow>
                  (failed_result, v2,
                   [Delete filePath, Create filePath noteContent]
                     @ unlessBulk isBulkProcessing (Notice (js ''Failed to create note'')))
              | (Returned u2, v2) \<Rightarrow>
                  (created_result name noteTitle, v2,
                   [Delete filePath, Create filePath noteContent]
                     @ unlessBulk isBulkProcessing (Notice (js ''Replaced: '' @ noteTitle)))))
      else
        (case vault_create ne v filePath noteContent of
           (Threw err, v1) \<Rightarrow>
             (failed_result, v1,
              [Create filePath noteContent]
                @ unlessBulk isBulkProcessing (Notice (js ''Failed to create note'')))
         | (Returned u1, v1) \<Rightarrow>
             (created_result name noteTitle, v1,
              [Create filePath noteContent]
                @ unlessBulk isBulkProcessing (Notice (js ''Created: '' @ noteTitle)))))"

text \<open>
  \<open>createTikTokNote\<close> behind the creation of the folder. \<open>name\<close>, \<open>noteTitle\<close> and
  \<open>noteContent\<close> are the strings of \<open>generateFileName\<close>, \<open>generateNoteTitle\<close> and
  \<open>generateNoteContent\<close>. The value is \<open>None\<close> when the call never settles: the prompt
  is left pending, or the loop of the \<open>duplicate\<close> branch does not end.
\<close>

definition resolveAndWrite ::
  "note_env \<Rightarrow> settings \<Rightarrow> vault \<Rightarrow> jstring \<Rightarrow> jstring \<Rightarrow> jstring \<Rightarrow> bool
     \<Rightarrow> (note_result \<times> vault \<times> effect list) option" where
  "resolveAndWrite ne s v name noteTitle noteContent isBulkProcessing =
     (if getAbstractFileByPath v (filePathFor (outputFolder s) name) \<noteq> None then
        (if isBulkProcessing then
           Some (\<lparr> n_success = False, n_duplicate = Some True, n_fileName = Some name,
                    n_noteTitle = Some noteTitle \<rparr>, v, [])
         else
           (case duplicate_choice ne of
              None \<Rightarrow> None
            | Some SkipFile \<Rightarrow>
                Some (failed_result, v,
                      [DuplicatePrompt name noteTitle, Notice (js ''File creation skipped'')])
            | Some DuplicateFile \<Rightarrow>
                (case probeDuplicate v (outputFolder s) name 1 of
                   None \<Rightarrow> None
                 | Some filePath \<Rightarrow>
                     (case writeNote ne v True filePath (filePathFor (outputFolder s) name)
                             name noteTitle noteContent isBulkProcessing of
                        (r, v', fx) \<Rightarrow> Some (r, v', DuplicatePrompt name noteTitle # fx)))
            | Some ReplaceFile \<Rightarrow>
                (case writeNote ne v True (filePathFor (outputFolder s) name)
                        (filePathFor (outputFolder s) name)
                        name noteTitle noteContent isBulkProcessing of
                   (r, v', fx) \<Rightarrow> Some (r, v', DuplicatePrompt name noteTitle # fx))))
      else
        Some (writeNote ne v False (filePathFor (outputFolder s) name)
                (filePathFor (outputFolder s) name) name noteTitle noteContent
                isBulkProcessing))"

text \<open>
  \<open>createTikTokNote\<close>: the folder is created when it is set and missing; that call is
  outside the \<open>try\<close>, so its error is thrown to the caller.
\<close>

definition createTikTokNote ::
  "note_env \<Rightarrow> settings \<Rightarrow> vault \<Rightarrow> jstring \<Rightarrow> jstring \<Rightarrow> jstring \<Rightarrow> bool
     \<Rightarrow> (note_result attempt \<times> vault \<times> effect list) option" where
  "createTikTokNote ne s v name noteTitle noteContent isBulkProcessing =
     (if outputFolder s \<noteq> [] \<and> getAbstractFileByPath v (outputFolder s) = None then
        (case vault_createFolder ne v (outputFolder s) of
           (Threw err, v1) \<Rightarrow> Some (Threw err, v1, [CreateFolder (outputFolder s)])
         | (Returned u1, v1) \<Rightarrow>
             (case resolveAndWrite ne s v1 name noteTitle noteContent isBulkProcessing of
                None \<Rightarrow> None
              | Some (r, v2, fx) \<Rightarrow> Some (Returned r, v2, CreateFolder (outputFolder s) # fx)))
      else
        (case resolveAndWrite ne s v name noteTitle noteContent isBulkProcessing of
           None \<Rightarrow> None
         | Some (r, v2, fx) \<Rightarrow> Some (Returned r, v2, fx)))"

text \<open>
  A vault is hierarchical: every entry lies in folders that are entries themselves.
  \<open>parents p\<close> are the paths in front of each \<open>/\<close> of \<open>p\<close>.
\<close>

definition parents :: "jstring \<Rightarrow> jstring list" where
  "parents p = map (\<lambda>i. take i p) (filter (\<lambda>i. p ! i = 47) [0..<length p])"

definition hierarchical :: "vault \<Rightarrow> bool" where
  "hierarchical v =
     list_all (\<lambda>(p, x). list_all (\<lambda>q. getAbstractFileByPath v q = Some Folder) (parents p)) v"

section \<open>Single item pipeline and the clipboard action\<close>

text \<open>
  The template engine is not constrained by any property below; it is a parameter:
  the three strings that it renders from a record.
\<close>

record templates =
  generateFileName :: "tiktok_data \<Rightarrow> jstring"
  generateNoteTitle :: "tiktok_data \<Rightarrow> jstring"
  generateNoteContent :: "tiktok_data \<Rightarrow> jstring"

definition failedToProcess :: effect where
  "failedToProcess = Notice (js ''Failed to process TikTok URL'')"

text \<open>
  \<open>processTikTokUrl\<close>: the three steps in one \<open>try\<close>, whose \<open>catch\<close> shows a notice.
  When the resolver yields \<open>null\<close>, \<open>generateFileName(null)\<close> reads a property of
  \<open>null\<close> and throws. The value is the vault and the effects when the call settles.
\<close>

definition processTikTokUrl ::
  "env \<Rightarrow> settings \<Rightarrow> templates \<Rightarrow> note_env \<Rightarrow> vault \<Rightarrow> jstring \<Rightarrow> (vault \<times> effect list) option" where
  "processTikTokUrl e s tp ne v u =
     (case expandUrl e s u (head_expand e) of
        (Threw err, fx) \<Rightarrow> Some (v, fx @ [failedToProcess])
      | (Returned expanded, fx) \<Rightarrow>
          (case fetchTikTokData e s expanded False of
             (Threw err, fx2) \<Rightarrow>
               Some (v, fx @ [Notice (js ''Fetching TikTok data...'')] @ fx2 @ [failedToProcess])
           | (Returned None, fx2) \<Rightarrow>
               Some (v, fx @ [Notice (js ''Fetching TikTok data...'')] @ fx2 @ [failedToProcess])
           | (Returned (Some d), fx2) \<Rightarrow>
               (case createTikTokNote ne s v (generateFileName tp d) (generateNoteTitle tp d)
                       (generateNoteContent tp d) False of
                  None \<Rightarrow> None
                | Some (Threw err, v', fx3) \<Rightarrow>
                    Some (v', fx @ [Notice (js ''Fetching TikTok data...'')] @ fx2 @ fx3
                                @ [failedToProcess])
                | Some (Returned r, v', fx3) \<Rightarrow>
                    Some (v', fx @ [Notice (js ''Fetching TikTok data...'')] @ fx2 @ fx3))))"

definition shouldShowBulkModal :: "settings \<Rightarrow> jstring list \<Rightarrow> bool" where
  "shouldShowBulkModal s urls =
     (if \<not> enableBulkProcessing s then False
      else if length urls \<le> 1 \<and> bypassModalForSingle s then False
      else length urls > 1)"

text \<open>
  \<open>processTikTokFromClipboard\<close>. \<open>clipboard\<close> is the outcome of reading the clipboard.
  Opening the selection modal is an effect of its own: what the user selects there is
  handed to \<open>processBulkTikToks\<close> later.
\<close>

datatype action = Effects "effect list" | OpenBulkModal "jstring list"

definition processTikTokFromClipboard ::
  "env \<Rightarrow> settings \<Rightarrow> templates \<Rightarrow> note_env \<Rightarrow> vault \<Rightarrow> jstring attempt
     \<Rightarrow> (vault \<times> action) option" where
  "processTikTokFromClipboard e s tp ne v clipboard =
     (case clipboard of
        Threw err \<Rightarrow>
          Some (v, Effects [Notice (js ''Failed to read clipboard or process TikTok URL'')])
      | Returned clipboardText \<Rightarrow>
          if length (extractTikTokUrls clipboardText) = 0 then
            Some (v, Effects [Notice (js ''Clipboard does not contain any valid TikTok URLs'')])
          else if shouldShowBulkModal s (extractTikTokUrls clipboardText) then
            Some (v, OpenBulkModal (extractTikTokUrls clipboardText))
          else
            (case processTikTokUrl e s tp ne v (extractTikTokUrls clipboardText ! 0) of
               None \<Rightarrow> None
             | Some (v', fx) \<Rightarrow>
                 Some (v', Effects (Notice (js ''Processing TikTok URL...'') # fx))))"

section \<open>Batch orchestrator: \<open>processBulkTikToks\<close>\<close>

text \<open>
  One entry of the \<open>results\<close> array of \<open>processBulkTikToks\<close>. Optional properties of
  the TypeScript object type are options; \<open>None\<close> is JavaScript's \<open>undefined\<close>.
\<close>

record bulk_result =
  res_url :: jstring
  res_success :: bool
  res_error :: "jstring option"
  res_duplicate :: "bool option"
  res_fileName :: "jstring option"
  res_noteTitle :: "jstring option"
  res_oembedFailed :: "bool option"
  res_isSlideshow :: "bool option"
  res_isPrivate :: "bool option"

text \<open>
  What \<open>processTikTokUrlBulk\<close> resolves with: the note writer's result spread together
  with three flags of the resolved data.
\<close>

record url_result =
  r_success :: bool
  r_duplicate :: "bool option"
  r_fileName :: "jstring option"
  r_noteTitle :: "jstring option"
  r_oembedFailed :: "bool option"
  r_isSlideshow :: "bool option"
  r_isPrivate :: "bool option"

text \<open>
  The outcome of \<open>await Promise.race([processUrlPromise, timeoutPromise])\<close>: the race
  resolves with the result of the URL, or rejects with an error of which the loop reads
  only \<open>error.message\<close>. The timer rejects with the message \<open>Processing timeout\<close>.
\<close>

datatype race_outcome = Resolved url_result | Rejected jstring

definition timeout_message :: jstring where
  "timeout_message = js ''Processing timeout''"

text \<open>
  The local variables of the loop. \<open>iteration\<close> counts the passes of the \<open>while\<close>
  loop; it is not a variable of the source, it only tells the environment which attempt
  is being made, so that one URL may behave differently on each attempt.
\<close>

record loop_state =
  processingQueue :: "jstring list"
  results :: "bulk_result list"
  processed :: nat
  iteration :: nat

definition push_result :: "jstring \<Rightarrow> url_result \<Rightarrow> bulk_result" where
  "push_result u r =
     \<lparr> res_url = u, res_success = r_success r, res_error = None,
       res_duplicate = r_duplicate r, res_fileName = r_fileName r,
       res_noteTitle = r_noteTitle r, res_oembedFailed = r_oembedFailed r,
       res_isSlideshow = r_isSlideshow r, res_isPrivate = r_isPrivate r \<rparr>"

definition push_failure :: "jstring \<Rightarrow> jstring \<Rightarrow> bulk_result" where
  "push_failure u msg =
     \<lparr> res_url = u, res_success = False, res_error = Some msg, res_duplicate = None,
       res_fileName = None, res_noteTitle = None, res_oembedFailed = None,
       res_isSlideshow = None, res_isPrivate = None \<rparr>"

text \<open>
  The \<open>while (processingQueue.length > 0)\<close> loop. \<open>run k u\<close> is the outcome of the race
  in pass \<open>k\<close> for URL \<open>u\<close>; \<open>n\<close> is \<open>urls.length\<close>. The guard of the requeue is the one
  of the source: it reads the length of the queue after \<open>shift()\<close>. A loop that never
  leaves is the value \<open>None\<close>.
\<close>

partial_function (option) bulk_loop ::
  "(nat \<Rightarrow> jstring \<Rightarrow> race_outcome) \<Rightarrow> nat \<Rightarrow> loop_state \<Rightarrow> loop_state option" where
  "bulk_loop run n st =
     (case processingQueue st of
        [] \<Rightarrow> Some st
      | u # rest \<Rightarrow>
          (case run (iteration st) u of
             Resolved r \<Rightarrow>
               bulk_loop run n
                 (st\<lparr> processingQueue := rest,
                      results := results st @ [push_result u r],
                      processed := processed st + 1,
                      iteration := iteration st + 1 \<rparr>)
           | Rejected msg \<Rightarrow>
               if msg = timeout_message \<and> length rest < n * 2
               then bulk_loop run n
                      (st\<lparr> processingQueue := rest @ [u],
                           iteration := iteration st + 1 \<rparr>)
               else bulk_loop run n
                      (st\<lparr> processingQueue := rest,
                           results := results st @ [push_failure u msg],
                           processed := processed st + 1,
                           iteration := iteration st + 1 \<rparr>)))"

text \<open>
  \<open>processBulkTikToks\<close>: nothing is done for an empty list; otherwise the queue is a
  copy of \<open>urls\<close> and the array handed to \<open>showBulkProcessingResults\<close> is returned.
\<close>

definition processBulkTikToks ::
  "(nat \<Rightarrow> jstring \<Rightarrow> race_outcome) \<Rightarrow> jstring list \<Rightarrow> bulk_result list option" where
  "processBulkTikToks run urls =
     (if urls = [] then Some []
      else map_option results
             (bulk_loop run (length urls)
                \<lparr> processingQueue = urls, results = [], processed = 0, iteration = 0 \<rparr>))"

text \<open>The environment in which every attempt on every URL runs into the timer.\<close>

definition always_timeout :: "nat \<Rightarrow> jstring \<Rightarrow> race_outcome" where
  "always_timeout k u = Rejected timeout_message"

section \<open>The default settings and sample environments\<close>

text \<open>
  \<open>DEFAULT_SETTINGS\<close>, as far as the settings are modelled, and environments for the
  examples: a desktop on which every request fails, the same on mobile, and a vault that
  holds the output folder with one note.
\<close>

definition DEFAULT_SETTINGS :: settings where
  "DEFAULT_SETTINGS =
     \<lparr> outputFolder = js ''TikToks'', handlePrivateVideos = CreateEmpty, urlTimeout = 10,
       enableBulkProcessing = True, bypassModalForSingle = True,
       showBulkProcessingProgress = True \<rparr>"

definition network_down :: js_error where
  "network_down = Error (js ''Failed to fetch'')"

definition offline_desktop :: env where
  "offline_desktop =
     \<lparr> isMobile = False, fold_extra = (\<lambda>c. False), Date_parse = (\<lambda>s. None),
       head_expand = Threw network_down, head_expand_mobile = Threw network_down,
       oembed = Threw network_down, head_date = Threw network_down,
       now_posted = 1700000000000, now_created = 1700000000000 \<rparr>"

definition offline_mobile :: env where
  "offline_mobile = offline_desktop \<lparr> isMobile := True \<rparr>"

definition sample_templates :: templates where
  "sample_templates =
     \<lparr> generateFileName = (\<lambda>d. js ''TikTok by '' @ author d),
       generateNoteTitle = (\<lambda>d. js ''TikTok by '' @ author d),
       generateNoteContent = embedHtml \<rparr>"

definition sample_vault :: vault where
  "sample_vault = [(js ''TikToks'', Folder), (js ''TikToks/note.md'', File (js ''old''))]"

definition reliable_disk :: note_env where
  "reliable_disk =
     \<lparr> createFolder_error = None, delete_error = None, create_error = None,
       duplicate_choice = Some DuplicateFile \<rparr>"

section \<open>Properties of the batch orchestrator\<close>

lemma bulk_loop_always_timeout_diverges:
  assumes ret: "bulk_loop run n st = Some y"
  shows "\<not> (run = always_timeout \<and> processingQueue st \<noteq> [] \<and> length (processingQueue st) \<le> n)"
proof (rule bulk_loop.raw_induct
    [where P = "\<lambda>run n st y. \<not> (run = always_timeout \<and> processingQueue st \<noteq> []
                   \<and> length (processingQueue st) \<le> n)", OF _ ret])
  fix loop :: "(nat \<Rightarrow> jstring \<Rightarrow> race_outcome) \<Rightarrow> nat \<Rightarrow> loop_state \<Rightarrow> loop_state option"
  fix run n st y
  assume IH: "\<And>run n st y. loop run n st = Some y \<Longrightarrow>
     \<not> (run = always_timeout \<and> processingQueue st \<noteq> [] \<and> length (processingQueue st) \<le> n)"
  assume body: "(case processingQueue st of [] \<Rightarrow> Some st
      | u # rest \<Rightarrow>
          case run (iteration st) u of
          Resolved r \<Rightarrow>
            loop run n
             (st\<lparr>processingQueue := rest,
                   results := results st @ [push_result u r],
                   processed := processed st + 1,
                   iteration := iteration st + 1\<rparr>)
          | Rejected msg \<Rightarrow>
              if msg = timeout_message \<and> length rest < n * 2
              then loop run n
                    (st\<lparr>processingQueue := rest @ [u],
                          iteration := iteration st + 1\<rparr>)
              else loop run n
                    (st\<lparr>processingQueue := rest,
                          results := results st @ [push_failure u msg],
                          processed := processed st + 1,
                          iteration := iteration st + 1\<rparr>)) = Some y"
  show "\<not> (run = always_timeout \<and> processingQueue st \<noteq> [] \<and> length (processingQueue st) \<le> n)"
  proof
    assume inv: "run = always_timeout \<and> processingQueue st \<noteq> [] \<and> length (processingQueue st) \<le> n"
    then obtain u rest where q: "processingQueue st = u # rest"
      by (cases "processingQueue st") auto
    from inv q have guard: "length rest < n * 2" by simp
    let ?st' = "st\<lparr> processingQueue := rest @ [u], iteration := iteration st + 1 \<rparr>"
    from body inv q guard have "loop run n ?st' = Some y"
      by (simp add: always_timeout_def)
    from IH [OF this] inv q show False by simp
  qed
qed

text \<open>
  C1. The claim: a timed-out item is requeued only while fewer than \<open>2 * N\<close> items have
  been requeued, and the loop always terminates, in particular when every attempt times
  out. The code compares the length of the queue after the dequeue, which is below \<open>N\<close>,
  with \<open>2 * N\<close>: the guard never fails, and on a worklist of one URL whose every
  attempt times out the loop never returns.
\<close>

theorem processBulkTikToks_all_timeouts_never_returns:
  "processBulkTikToks always_timeout [js ''https://www.tiktok.com/@a/video/1''] = None"
proof (rule ccontr)
  let ?st = "\<lparr> processingQueue = [js ''https://www.tiktok.com/@a/video/1''], results = [],
               processed = 0, iteration = 0 \<rparr>"
  assume "processBulkTikToks always_timeout [js ''https://www.tiktok.com/@a/video/1''] \<noteq> None"
  then obtain y where "bulk_loop always_timeout 1 ?st = Some y"
    by (auto simp: processBulkTikToks_def)
  from bulk_loop_always_timeout_diverges [OF this] show False by simp
qed

section \<open>Evaluation of literals\<close>

lemma js_lits [simp]: "js [] = []" "js (c # cs) = of_char c # js cs"
  by (simp_all add: js_def)

lemma makeHeadRequest_mobile_returns:
  "isMobile e \<Longrightarrow> \<exists>r. makeHeadRequest e u a reply = (Returned r, [RequestUrl (js ''HEAD'') u]) \<and> resp_url r = u"
  by (cases reply) (auto simp: makeHeadRequest_def)

section \<open>Properties of the matcher\<close>

lemma rx_match_sound:
  "(m, t) \<in> set (rx_match ci r s) \<Longrightarrow> s = m @ t"
proof (induction r arbitrary: s m t)
  case (Lit l)
  then show ?case by (auto split: if_splits)
next
  case (Cls p)
  then show ?case by (auto split: list.splits if_splits)
next
  case (Seq a b)
  from Seq.prems obtain m1 t1 m2 where
    a: "(m1, t1) \<in> set (rx_match ci a s)" and b: "(m2, t) \<in> set (rx_match ci b t1)"
    and m: "m = m1 @ m2"
    by auto
  from Seq.IH(1) [OF a] Seq.IH(2) [OF b] m show ?case by simp
next
  case (Alt a b)
  then show ?case by auto
next
  case (Opt a)
  then show ?case by auto
next
  case (Plus p)
  then show ?case by auto
qed

lemma rx_exec_prefix:
  assumes "rx_exec ci r s = Some m"
  shows "take (length m) s = m"
proof -
  from assms obtain t rest where "rx_match ci r s = (m, t) # rest"
    by (auto simp: rx_exec_def split: list.splits)
  then have "(m, t) \<in> set (rx_match ci r s)" by simp
  then have "s = m @ t" by (rule rx_match_sound)
  then show ?thesis by simp
qed

lemma match_all_from_offsets:
  "(i, m) \<in> set (match_all_from ci r off s) \<Longrightarrow>
     off \<le> i \<and> take (length m) (drop (i - off) s) = m"
proof (induction ci r off s arbitrary: i m rule: match_all_from.induct)
  case (1 ci r off)
  show ?case
  proof (cases "rx_exec ci r []")
    case None
    with "1.prems" show ?thesis by simp
  next
    case (Some m0)
    with "1.prems" have "i = off" "m = m0" by simp_all
    with rx_exec_prefix [OF Some] show ?thesis by simp
  qed
next
  case (2 ci r off c t)
  show ?case
  proof (cases "rx_exec ci r (c # t)")
    case None
    with "2.prems" have "(i, m) \<in> set (match_all_from ci r (off + 1) t)" by simp
    from "2.IH"(1) [OF None this] have "off + 1 \<le> i" and "take (length m) (drop (i - (off + 1)) t) = m"
      by simp_all
    moreover from \<open>off + 1 \<le> i\<close> have "i - off = Suc (i - (off + 1))"
      by simp
    then have "drop (i - off) (c # t) = drop (i - (off + 1)) t"
      by (simp only: drop_Suc_Cons)
    ultimately show ?thesis by simp
  next
    case (Some m0)
    let ?k = "max 1 (length m0)"
    from "2.prems" Some consider "(i, m) = (off, m0)"
      | "(i, m) \<in> set (match_all_from ci r (off + ?k) (drop ?k (c # t)))"
      by auto
    then show ?thesis
    proof cases
      case 1
      with rx_exec_prefix [OF Some] show ?thesis by simp
    next
      case 2
      note both = "2.IH"(2) [OF Some 2]
      from both have le: "off + ?k \<le> i" ..
      from both have tk: "take (length m) (drop (i - (off + ?k)) (drop ?k (c # t))) = m" ..
      from le have e: "i - (off + ?k) + ?k = i - off" by simp
      from tk have "take (length m) (drop (i - (off + ?k) + ?k) (c # t)) = m"
        by (simp only: drop_drop)
      then have "take (length m) (drop (i - off) (c # t)) = m"
        by (simp only: e)
      moreover from le have "off \<le> i" by simp
      ultimately show ?thesis by simp
    qed
  qed
qed

lemma match_all_from_sorted:
  "sorted_wrt (<) (map fst (match_all_from ci r off s))"
proof (induction ci r off s rule: match_all_from.induct)
  case (1 ci r off)
  then show ?case by (simp split: option.splits)
next
  case (2 ci r off c t)
  show ?case
  proof (cases "rx_exec ci r (c # t)")
    case None
    with "2.IH"(1) show ?thesis by simp
  next
    case (Some m0)
    have "off < i" if "(i, m) \<in> set (match_all_from ci r (off + max 1 (length m0)) (drop (max 1 (length m0)) (c # t)))" for i m
      using match_all_from_offsets [OF that] by (simp add: max_def split: if_splits)
    with "2.IH"(2) [OF Some] Some show ?thesis by auto
  qed
qed

section \<open>Properties of URL discovery\<close>

lemma first_offset_eq: "first_offset text u = offset_in (urlMatches text) (length text) u"
  by (simp add: first_offset_def)

lemma find_append_fresh:
  assumes "u \<notin> snd ` set pre"
  shows "find (\<lambda>p. snd p = u) (pre @ (i, u) # post) = Some (i, u)"
  using assms by (induction pre) auto

lemma offset_in_member:
  assumes "u \<in> snd ` set ps"
  shows "(offset_in ps n u, u) \<in> set ps"
proof -
  from assms obtain p where "find (\<lambda>p. snd p = u) ps = Some p"
    by (cases "find (\<lambda>p. snd p = u) ps") (auto simp: find_None_iff)
  moreover from this have "p \<in> set ps" "snd p = u"
    by (auto simp: find_Some_iff)
  ultimately show ?thesis
    by (cases p) (simp add: offset_in_def)
qed

lemma set_add_all_ordered:
  assumes "ps = pre @ post"
    and "sorted_wrt (<) (map fst ps)"
    and "distinct acc"
    and "set acc = snd ` set pre"
    and "sorted_wrt (\<lambda>a b. offset_in ps n a < offset_in ps n b) acc"
    and "\<forall>a \<in> set acc. \<forall>q \<in> set post. offset_in ps n a < fst q"
  shows "distinct (set_add_all acc (map snd post))
    \<and> set (set_add_all acc (map snd post)) = snd ` set ps
    \<and> sorted_wrt (\<lambda>a b. offset_in ps n a < offset_in ps n b) (set_add_all acc (map snd post))"
  using assms
proof (induction post arbitrary: pre acc)
  case Nil
  then show ?case by simp
next
  case (Cons q post)
  obtain i x where q: "q = (i, x)" by (cases q)
  have ps: "ps = (pre @ [q]) @ post" using Cons.prems(1) by simp
  show ?case
  proof (cases "x \<in> set acc")
    case True
    have "set acc = snd ` set (pre @ [q])"
      using True Cons.prems(4) q by auto
    moreover have "\<forall>a \<in> set acc. \<forall>q \<in> set post. offset_in ps n a < fst q"
      using Cons.prems(6) by simp
    ultimately show ?thesis
      using Cons.IH [OF ps Cons.prems(2) Cons.prems(3) _ Cons.prems(5)] True q by simp
  next
    case False
    then have fresh: "x \<notin> snd ` set pre" using Cons.prems(4) by simp
    have off: "offset_in ps n x = i"
      using find_append_fresh [OF fresh] Cons.prems(1) q by (simp add: offset_in_def)
    have later: "\<forall>r \<in> set post. i < fst r"
      using Cons.prems(1,2) q by (auto simp: sorted_wrt_append)
    have d: "distinct (acc @ [x])" using False Cons.prems(3) by simp
    have s: "set (acc @ [x]) = snd ` set (pre @ [q])"
      using Cons.prems(4) q by auto
    have before: "\<forall>a \<in> set acc. offset_in ps n a < i"
      using Cons.prems(6) q by simp
    have o: "sorted_wrt (\<lambda>a b. offset_in ps n a < offset_in ps n b) (acc @ [x])"
      using Cons.prems(5) before off by (simp add: sorted_wrt_append)
    have l: "\<forall>a \<in> set (acc @ [x]). \<forall>r \<in> set post. offset_in ps n a < fst r"
      using Cons.prems(6) later off by auto
    show ?thesis
      using Cons.IH [OF ps Cons.prems(2) d s o l] False q by simp
  qed
qed

lemma sorted_wrt_filter_keep: "sorted_wrt R xs \<Longrightarrow> sorted_wrt R (filter P xs)"
  by (induction xs) auto

text \<open>
  C8. URL discovery is a function of the text alone, so two runs on one text give the
  same list. The list holds no string twice; its URLs stand in the order of their first
  occurrence in the text, that is, the offsets of their first matches increase; and
  every URL of the list is the text at the offset of its first match.
\<close>

theorem discovery_unique_in_order:
  "distinct (extractTikTokUrls T)
   \<and> sorted_wrt (\<lambda>u w. first_offset T u < first_offset T w) (extractTikTokUrls T)
   \<and> (\<forall>u \<in> set (extractTikTokUrls T). take (length u) (drop (first_offset T u) T) = u)"
proof -
  let ?ps = "urlMatches T"
  let ?all = "set_add_all [] (map snd ?ps)"
  have sorted: "sorted_wrt (<) (map fst ?ps)"
    unfolding urlMatches_def by (rule match_all_from_sorted)
  have inv: "distinct ?all \<and> set ?all = snd ` set ?ps
      \<and> sorted_wrt (\<lambda>a b. offset_in ?ps (length T) a < offset_in ?ps (length T) b) ?all"
    by (rule set_add_all_ordered [where pre = "[]"]) (simp_all add: sorted)
  have res: "extractTikTokUrls T = filter isTikTokUrl ?all"
    by (simp add: extractTikTokUrls_def Let_def)
  have 1: "distinct (extractTikTokUrls T)"
    using inv by (simp add: res)
  have 2: "sorted_wrt (\<lambda>u w. first_offset T u < first_offset T w) (extractTikTokUrls T)"
    using inv unfolding res first_offset_eq by (blast intro: sorted_wrt_filter_keep)
  have 3: "take (length u) (drop (first_offset T u) T) = u" if "u \<in> set (extractTikTokUrls T)" for u
  proof -
    from that inv have "u \<in> snd ` set ?ps" by (auto simp: res)
    then have "(first_offset T u, u) \<in> set (match_all_from True urlPattern 0 T)"
      unfolding first_offset_eq by (metis offset_in_member urlMatches_def)
    from match_all_from_offsets [OF this] show ?thesis by simp
  qed
  from 1 2 3 show ?thesis by blast
qed

lemma extractTikTokUrls_eq:
  "extractTikTokUrls text = filter isTikTokUrl (set_add_all [] (map snd (urlMatches text)))"
  by (simp add: extractTikTokUrls_def Let_def)

lemmas discovery_ev = extractTikTokUrls_eq urlMatches_def urlPattern_def rx_exec_def urlChar_def
  isSpace_def canonicalize_def isTikTokUrl_def tikTokPatterns_def rx_test_anchored_def trim_def
  isWordChar_def isDigit_def

theorem discovery_unique_in_order_witness:
  "extractTikTokUrls (js ''b https://www.tiktok.com/@b/video/2 a https://vm.tiktok.com/Za/ b https://www.tiktok.com/@b/video/2'')
     = [js ''https://www.tiktok.com/@b/video/2'', js ''https://vm.tiktok.com/Za/'']
   \<and> distinct [js ''https://www.tiktok.com/@b/video/2'', js ''https://vm.tiktok.com/Za/'']
   \<and> first_offset (js ''b https://www.tiktok.com/@b/video/2 a https://vm.tiktok.com/Za/ b https://www.tiktok.com/@b/video/2'')
         (js ''https://www.tiktok.com/@b/video/2'') = 2
   \<and> first_offset (js ''b https://www.tiktok.com/@b/video/2 a https://vm.tiktok.com/Za/ b https://www.tiktok.com/@b/video/2'')
         (js ''https://vm.tiktok.com/Za/'') = 38"
proof -
  let ?T = "js ''b https://www.tiktok.com/@b/video/2 a https://vm.tiktok.com/Za/ b https://www.tiktok.com/@b/video/2''"
  have m: "urlMatches ?T = [(2, js ''https://www.tiktok.com/@b/video/2''), (38, js ''https://vm.tiktok.com/Za/''),
       (66, js ''https://www.tiktok.com/@b/video/2'')]"
    by (simp add: urlMatches_def urlPattern_def rx_exec_def urlChar_def isSpace_def canonicalize_def)
  have e: "extractTikTokUrls ?T = [js ''https://www.tiktok.com/@b/video/2'', js ''https://vm.tiktok.com/Za/'']"
    unfolding extractTikTokUrls_eq m
    by (simp add: isTikTokUrl_def tikTokPatterns_def rx_test_anchored_def trim_def isSpace_def
        isWordChar_def isDigit_def rx_exec_def)
  have f: "first_offset ?T (js ''https://www.tiktok.com/@b/video/2'') = 2"
    "first_offset ?T (js ''https://vm.tiktok.com/Za/'') = 38"
    unfolding first_offset_def offset_in_def m by simp_all
  from discovery_unique_in_order [of ?T] e f show ?thesis
    by simp
qed

section \<open>Properties of the redirect resolver\<close>

text \<open>
  C4. \<open>expandUrl\<close> never raises: it always returns a URL. A URL that is not of a
  short-link form (it holds neither \<open>vm.tiktok.com\<close> nor \<open>tiktok.com/t/\<close>) is returned
  unchanged and no request is issued. When the HEAD request fails, by an error, a timeout
  or an abort, the URL is returned unchanged.
\<close>

theorem expandUrl_never_raises:
  "(\<exists>u'. fst (expandUrl e s u reply) = Returned u')
   \<and> (\<not> isShortLink u \<longrightarrow> expandUrl e s u reply = (Returned u, []))
   \<and> (\<forall>err. reply = Threw err \<longrightarrow> fst (expandUrl e s u reply) = Returned u)"
proof (intro conjI allI impI)
  show "\<exists>u'. fst (expandUrl e s u reply) = Returned u'"
    by (cases reply) (auto simp: expandUrl_def makeHeadRequest_def)
next
  assume "\<not> isShortLink u"
  then show "expandUrl e s u reply = (Returned u, [])"
    by (simp add: expandUrl_def)
next
  fix err assume "reply = Threw err"
  then show "fst (expandUrl e s u reply) = Returned u"
    by (auto simp: expandUrl_def makeHeadRequest_def)
qed

theorem expandUrl_never_raises_witness:
  "expandUrl offline_desktop DEFAULT_SETTINGS (js ''https://www.tiktok.com/@a/video/1'') (Threw network_down)
     = (Returned (js ''https://www.tiktok.com/@a/video/1''), [])
   \<and> fst (expandUrl offline_desktop DEFAULT_SETTINGS (js ''https://vm.tiktok.com/ZM'') (Threw network_down))
     = Returned (js ''https://vm.tiktok.com/ZM'')"
proof -
  have "\<not> isShortLink (js ''https://www.tiktok.com/@a/video/1'')"
    by (simp add: isShortLink_def)
  with expandUrl_never_raises [of offline_desktop DEFAULT_SETTINGS
      "js ''https://www.tiktok.com/@a/video/1''" "Threw network_down"]
    expandUrl_never_raises [of offline_desktop DEFAULT_SETTINGS
      "js ''https://vm.tiktok.com/ZM''" "Threw network_down"]
  show ?thesis by blast
qed

section \<open>Properties of the clipboard action\<close>

text \<open>
  C9. With bulk processing disabled, a clipboard text with two or more valid URLs is
  handled as the text with the first URL alone: the run is the notice followed by the
  single item pipeline on the first discovered URL, and the other URLs are the argument
  of nothing (no notice, no result, no write).
\<close>

theorem clipboard_single_when_bulk_disabled:
  assumes "\<not> enableBulkProcessing s"
    and "extractTikTokUrls clipboardText = u # u' # rest"
  shows "processTikTokFromClipboard e s tp ne v (Returned clipboardText) =
           (case processTikTokUrl e s tp ne v u of
              None \<Rightarrow> None
            | Some (v', fx) \<Rightarrow> Some (v', Effects (Notice (js ''Processing TikTok URL...'') # fx)))"
  using assms by (simp add: processTikTokFromClipboard_def shouldShowBulkModal_def)

theorem clipboard_single_when_bulk_disabled_witness:
  "processTikTokFromClipboard offline_desktop (DEFAULT_SETTINGS \<lparr> enableBulkProcessing := False \<rparr>)
      sample_templates reliable_disk sample_vault
      (Returned (js ''https://www.tiktok.com/@a/video/1 https://www.tiktok.com/@b/video/2'')) =
     (case processTikTokUrl offline_desktop (DEFAULT_SETTINGS \<lparr> enableBulkProcessing := False \<rparr>)
             sample_templates reliable_disk sample_vault (js ''https://www.tiktok.com/@a/video/1'') of
        None \<Rightarrow> None
      | Some (v', fx) \<Rightarrow> Some (v', Effects (Notice (js ''Processing TikTok URL...'') # fx)))"
proof -
  have off: "\<not> enableBulkProcessing (DEFAULT_SETTINGS \<lparr> enableBulkProcessing := False \<rparr>)"
    by simp
  have urls: "extractTikTokUrls (js ''https://www.tiktok.com/@a/video/1 https://www.tiktok.com/@b/video/2'')
      = js ''https://www.tiktok.com/@a/video/1'' # js ''https://www.tiktok.com/@b/video/2'' # []"
    by (simp add: discovery_ev)
  show ?thesis
    by (rule clipboard_single_when_bulk_disabled [OF off urls])
qed

section \<open>Properties of the note writer\<close>

lemma parents_mem: "i < length p \<Longrightarrow> p ! i = 47 \<Longrightarrow> take i p \<in> set (parents p)"
  by (auto simp: parents_def)

lemma hierarchical_folder:
  assumes h: "hierarchical v"
    and ex: "getAbstractFileByPath v (folder @ [47] @ rest) \<noteq> None"
  shows "getAbstractFileByPath v folder = Some Folder"
proof -
  let ?p = "folder @ [47] @ rest"
  from ex obtain x where "map_of v ?p = Some x"
    by (auto simp: getAbstractFileByPath_def)
  then have mem: "(?p, x) \<in> set v"
    by (rule map_of_SomeD)
  have "take (length folder) ?p \<in> set (parents ?p)"
    by (rule parents_mem) (simp_all add: nth_append)
  then have "folder \<in> set (parents ?p)"
    by simp
  with h mem show ?thesis
    by (auto simp: hierarchical_def list_all_iff)
qed

lemma folder_present:
  assumes "hierarchical v"
    and "getAbstractFileByPath v (filePathFor (outputFolder s) name) \<noteq> None"
  shows "\<not> (outputFolder s \<noteq> [] \<and> getAbstractFileByPath v (outputFolder s) = None)"
proof
  assume a: "outputFolder s \<noteq> [] \<and> getAbstractFileByPath v (outputFolder s) = None"
  then have "filePathFor (outputFolder s) name = outputFolder s @ [47] @ (name @ js ''.md'')"
    by (simp add: filePathFor_def)
  with assms have "getAbstractFileByPath v (outputFolder s) = Some Folder"
    by (metis hierarchical_folder)
  with a show False by simp
qed

lemma createTikTokNote_in_folder:
  assumes "hierarchical v"
    and "getAbstractFileByPath v (filePathFor (outputFolder s) name) \<noteq> None"
  shows "createTikTokNote ne s v name noteTitle noteContent b =
           (case resolveAndWrite ne s v name noteTitle noteContent b of
              None \<Rightarrow> None
            | Some (r, v2, fx) \<Rightarrow> Some (Returned r, v2, fx))"
proof -
  have "(outputFolder s \<noteq> [] \<and> getAbstractFileByPath v (outputFolder s) = None) = False"
    using folder_present [OF assms] by blast
  then show ?thesis
    unfolding createTikTokNote_def by (simp only: if_False)
qed

text \<open>
  C5. In batch mode, when an entry exists at the target path of a hierarchical vault,
  \<open>createTikTokNote\<close> returns the duplicate outcome (\<open>success: false\<close>,
  \<open>duplicate: true\<close>, with the file name and the title) with no effect at all: no
  prompt is opened, nothing is created or deleted, and the vault is unchanged.
\<close>

theorem batch_duplicate_pending:
  assumes "hierarchical v"
    and "getAbstractFileByPath v (filePathFor (outputFolder s) name) \<noteq> None"
  shows "createTikTokNote ne s v name noteTitle noteContent True =
           Some (Returned \<lparr> n_success = False, n_duplicate = Some True, n_fileName = Some name,
                              n_noteTitle = Some noteTitle \<rparr>, v, [])"
  using assms(2)
  by (simp add: createTikTokNote_in_folder [OF assms] resolveAndWrite_def)

lemmas vault_ev = hierarchical_def parents_def getAbstractFileByPath_def filePathFor_def
  sample_vault_def DEFAULT_SETTINGS_def

theorem batch_duplicate_pending_witness:
  "createTikTokNote reliable_disk DEFAULT_SETTINGS sample_vault (js ''note'') (js ''A note'')
      (js ''text'') True =
     Some (Returned \<lparr> n_success = False, n_duplicate = Some True, n_fileName = Some (js ''note''),
                        n_noteTitle = Some (js ''A note'') \<rparr>, sample_vault, [])"
proof -
  have h: "hierarchical sample_vault"
    by (simp add: vault_ev)
  have ex: "getAbstractFileByPath sample_vault (filePathFor (outputFolder DEFAULT_SETTINGS) (js ''note'')) \<noteq> None"
    by (simp add: vault_ev)
  show ?thesis
    by (rule batch_duplicate_pending [OF h ex])
qed

lemma deleted_is_gone:
  "getAbstractFileByPath (filter (\<lambda>(q, x). q \<noteq> p \<and> \<not> lit_prefix False (p @ [47]) q) v) p = None"
  by (auto simp: getAbstractFileByPath_def map_of_eq_None_iff)

text \<open>
  C10. The \<open>replace\<close> resolution of single mode is not atomic. When the existing file
  is deleted and the creation then fails, the call returns the failure outcome, the
  deletion is not undone: no entry is left at the path, and the vault differs from the
  one before the call.
\<close>

theorem replace_not_atomic:
  assumes "hierarchical v"
    and "getAbstractFileByPath v (filePathFor (outputFolder s) name) \<noteq> None"
    and "duplicate_choice ne = Some ReplaceFile"
    and "delete_error ne = None"
    and "create_error ne = Some err"
  shows "\<exists>v'. createTikTokNote ne s v name noteTitle noteContent False =
           Some (Returned failed_result, v',
                 [DuplicatePrompt name noteTitle,
                  Delete (filePathFor (outputFolder s) name),
                  Create (filePathFor (outputFolder s) name) noteContent,
                  Notice (js ''Failed to create note'')])
         \<and> getAbstractFileByPath v' (filePathFor (outputFolder s) name) = None
         \<and> v' \<noteq> v"
proof -
  let ?p = "filePathFor (outputFolder s) name"
  let ?v' = "filter (\<lambda>(q, x). q \<noteq> ?p \<and> \<not> lit_prefix False (?p @ [47]) q) v"
  have gone: "getAbstractFileByPath ?v' ?p = None"
    by (rule deleted_is_gone)
  with assms(2) have "?v' \<noteq> v"
    by metis
  moreover have "createTikTokNote ne s v name noteTitle noteContent False =
           Some (Returned failed_result, ?v',
                 [DuplicatePrompt name noteTitle, Delete ?p, Create ?p noteContent,
                  Notice (js ''Failed to create note'')])"
    using assms(2-5)
    by (simp add: createTikTokNote_in_folder [OF assms(1,2)] resolveAndWrite_def writeNote_def
        vault_delete_def vault_create_def unlessBulk_def)
  ultimately show ?thesis
    using gone by blast
qed

theorem replace_not_atomic_witness:
  "\<exists>v'. createTikTokNote (reliable_disk \<lparr> duplicate_choice := Some ReplaceFile,
                                              create_error := Some (Error (js ''disk full'')) \<rparr>)
            DEFAULT_SETTINGS sample_vault (js ''note'') (js ''A note'') (js ''text'') False =
           Some (Returned failed_result, v',
                 [DuplicatePrompt (js ''note'') (js ''A note''),
                  Delete (filePathFor (outputFolder DEFAULT_SETTINGS) (js ''note'')),
                  Create (filePathFor (outputFolder DEFAULT_SETTINGS) (js ''note'')) (js ''text''),
                  Notice (js ''Failed to create note'')])
         \<and> getAbstractFileByPath v' (filePathFor (outputFolder DEFAULT_SETTINGS) (js ''note'')) = None
         \<and> v' \<noteq> sample_vault"
proof -
  have h: "hierarchical sample_vault"
    by (simp add: vault_ev)
  have ex: "getAbstractFileByPath sample_vault (filePathFor (outputFolder DEFAULT_SETTINGS) (js ''note'')) \<noteq> None"
    by (simp add: vault_ev)
  show ?thesis
    by (rule replace_not_atomic [OF h ex]) (simp_all add: reliable_disk_def)
qed

end
